theory Spec2Isabelle
  imports Main "HOL-Library.AList" "HOL-Library.Word"
begin

section \<open>The data of testhero.py\<close>

text \<open>
  Python strings are modelled by \<^typ>\<open>string\<close>; a character is a code point in the
  range 0..255. Python's \<^verbatim>\<open>str.strip()\<close> without argument removes the characters for
  which \<^verbatim>\<open>str.isspace\<close> holds; on that range these are the code points 9..13,
  28..32, 0x85 and 0xA0.
\<close>

definition isspace :: "char \<Rightarrow> bool" where
  "isspace c = ((of_char c :: nat) \<in> {9, 10, 11, 12, 13, 28, 29, 30, 31, 32, 133, 160})"

definition lstrip :: "string \<Rightarrow> string" where
  "lstrip s = dropWhile isspace s"

definition rstrip :: "string \<Rightarrow> string" where
  "rstrip s = rev (dropWhile isspace (rev s))"

definition strip :: "string \<Rightarrow> string" where
  "strip s = rstrip (lstrip s)"

definition startswith :: "string \<Rightarrow> string \<Rightarrow> bool" where
  "startswith s p = (take (length p) s = p)"

text \<open>
  Exceptions. \<open>RequestException\<close> stands for an instance of
  \<^verbatim>\<open>requests.exceptions.RequestException\<close> or of one of its subclasses,
  \<open>ValueError\<close> for a ValueError outside that hierarchy, \<open>OtherException\<close> for an
  instance of any other class. The argument is the text \<^verbatim>\<open>str(e)\<close>.
\<close>

datatype exn = RequestException string | ValueError string | OtherException string

text \<open>
  The value that \<^verbatim>\<open>response.json()\<close> builds, and that the two request methods hand to
  their caller: \<open>PyNone\<close> is Python's \<^verbatim>\<open>None\<close>, which is also what the JSON literal
  \<^verbatim>\<open>null\<close> parses to. A float is given by the 64 bits of its IEEE double.
\<close>

datatype pyval =
    PyNone
  | PyBool bool
  | PyInt int
  | PyFloat "64 word"
  | PyStr string
  | PyList "pyval list"
  | PyDict "(string \<times> pyval) list"

text \<open>
  Objects that the caller shares with the client live in a store: a value is immediate
  or a reference to a cell, a cell holds a dict (in insertion order) or a list. The cell
  of address \<open>a\<close> is the \<open>a\<close>-th element of the store; allocation appends a cell.
\<close>

datatype hval =
    VNone
  | VBool bool
  | VInt int
  | VFloat "64 word"
  | VStr string
  | VRef nat

datatype hobj = ODict "(string \<times> hval) list" | OList "hval list"

type_synonym heap = "hobj list"

definition lookup :: "heap \<Rightarrow> nat \<Rightarrow> hobj option" where
  "lookup h a = (if a < length h then Some (h ! a) else None)"

text \<open>
  Python's truth value of an object, as \<^verbatim>\<open>if variables:\<close> takes it. A reference to no
  cell does not occur in Python; the model gives it the value False.
\<close>

fun truthy :: "heap \<Rightarrow> hval \<Rightarrow> bool" where
  "truthy h VNone = False"
| "truthy h (VBool b) = b"
| "truthy h (VInt i) = (i \<noteq> 0)"
| "truthy h (VFloat f) = (f \<noteq> 0 \<and> f \<noteq> 0x8000000000000000)"
| "truthy h (VStr s) = (s \<noteq> [])"
| "truthy h (VRef a) =
     (case lookup h a of
        None \<Rightarrow> False
      | Some (ODict kvs) \<Rightarrow> kvs \<noteq> []
      | Some (OList xs) \<Rightarrow> xs \<noteq> [])"

text \<open>
  What opening and reading the credential file does: \<^verbatim>\<open>open\<close> raises
  FileNotFoundError, or \<^verbatim>\<open>open\<close> or \<^verbatim>\<open>readlines\<close> raise another exception (with
  its text), or \<^verbatim>\<open>readlines\<close> returns the lines.
\<close>

datatype file_outcome = FileNotFound | ReadFailed string | Lines "string list"

text \<open>One argument of a call of \<^verbatim>\<open>print\<close>; a call is the list of its arguments.\<close>

datatype pitem = PStr string | PInt int | PExn exn

text \<open>The arguments of one call of \<^verbatim>\<open>requests.post(url, json=..., headers=...)\<close>.\<close>

record request =
  req_url :: string
  req_json :: hval
  req_headers :: "(string \<times> string) list"

text \<open>
  The world around the client: the file system, the store, the calls of \<^verbatim>\<open>print\<close>
  so far and the calls of \<^verbatim>\<open>requests.post\<close> so far.
\<close>

record world =
  files :: "string \<Rightarrow> file_outcome"
  heap :: heap
  stdout :: "pitem list list"
  posted :: "request list"

text \<open>
  A response as the two methods read it: \<^verbatim>\<open>status_code\<close>, \<^verbatim>\<open>text\<close> and the outcome
  of \<^verbatim>\<open>json()\<close>, which returns the parsed body or raises.
\<close>

record response =
  status_code :: int
  text_body :: string
  json :: "exn + pyval"

datatype transport_outcome = Raised exn | Responded response

text \<open>
  The library call \<^verbatim>\<open>requests.post\<close> is a parameter of the model. It reads the world
  (the store holds the request body, the earlier calls are the time) and the request,
  and it writes nothing.
\<close>

type_synonym transport = "world \<Rightarrow> request \<Rightarrow> transport_outcome"

text \<open>The object \<^verbatim>\<open>self\<close> of class HeroGraphQLClient.\<close>

record client =
  url :: string
  api_key :: string
  headers :: "(string \<times> string) list"

section \<open>The credential loader\<close>

text \<open>
  The comprehension
  \<^verbatim>\<open>[line.strip() for line in lines if line.strip() and not line.startswith("-----")]\<close>.
\<close>

definition key_lines :: "string list \<Rightarrow> string list" where
  "key_lines lines =
     [strip line. line \<leftarrow> lines, strip line \<noteq> [] \<and> \<not> startswith line ''-----'']"

definition print :: "pitem list \<Rightarrow> world \<Rightarrow> world" where
  "print args w = w\<lparr>stdout := stdout w @ [args]\<rparr>"

definition read :: "string \<Rightarrow> world \<Rightarrow> string option \<times> world" where
  "read file_path w =
     (case files w file_path of
        Lines lines \<Rightarrow> (Some (concat (key_lines lines)), w)
      | FileNotFound \<Rightarrow> (None, print [PStr (''File not found: '' @ file_path)] w)
      | ReadFailed e \<Rightarrow>
          (None, print [PStr (''An error occurred while reading the file: '' @ e)] w))"

section \<open>Construction of the client\<close>

text \<open>
  \<^verbatim>\<open>__init__(self, url, key)\<close>: the result is the constructed object, or the exception
  that leaves the constructor; \<^verbatim>\<open>not self.api_key\<close> holds for \<^verbatim>\<open>None\<close> and for the
  empty string.
\<close>

definition init :: "string \<Rightarrow> string \<Rightarrow> world \<Rightarrow> (exn + client) \<times> world" where
  "init url_arg key w =
     (case read key w of
        (None, w1) \<Rightarrow>
          (Inl (ValueError ''API key could not be read from the provided .pem file.''), w1)
      | (Some k, w1) \<Rightarrow>
          if k = [] then
            (Inl (ValueError ''API key could not be read from the provided .pem file.''), w1)
          else
            (Inr \<lparr>url = url_arg, api_key = k,
                  headers = [(''Content-Type'', ''application/json''),
                             (''Accept'', ''application/json''),
                             (''Authorization'', ''Bearer '' @ k)]\<rparr>, w1))"

section \<open>Queries and mutations\<close>

text \<open>A dict display allocates a cell; \<^verbatim>\<open>d[k] = v\<close> updates the cell of \<open>d\<close> in place.\<close>

definition new_dict :: "(string \<times> hval) list \<Rightarrow> world \<Rightarrow> nat \<times> world" where
  "new_dict kvs w = (length (heap w), w\<lparr>heap := heap w @ [ODict kvs]\<rparr>)"

definition setitem :: "nat \<Rightarrow> string \<Rightarrow> hval \<Rightarrow> world \<Rightarrow> world" where
  "setitem a k v w =
     (case lookup (heap w) a of
        Some (ODict kvs) \<Rightarrow> w\<lparr>heap := (heap w)[a := ODict (AList.update k v kvs)]\<rparr>
      | _ \<Rightarrow> w)"

text \<open>
  The result of a method is the value it returns (\<open>Inr\<close>) or the exception that leaves
  it (\<open>Inl\<close>), with \<^verbatim>\<open>self\<close> and the world after the call. The clause
  \<^verbatim>\<open>except requests.exceptions.RequestException as e\<close> covers the whole \<^verbatim>\<open>try\<close> block:
  the call of \<^verbatim>\<open>requests.post\<close> and the call of \<^verbatim>\<open>response.json()\<close>.
\<close>

definition execute_query ::
  "transport \<Rightarrow> client \<Rightarrow> string \<Rightarrow> hval \<Rightarrow> world \<Rightarrow> (exn + pyval) \<times> client \<times> world" where
  "execute_query post self query variables w =
     (let (payload, w1) = new_dict [(''query'', VStr query)] w;
          w2 = (if truthy (heap w1) variables
                then setitem payload ''variables'' variables w1 else w1);
          req = \<lparr>req_url = url self, req_json = VRef payload, req_headers = headers self\<rparr>;
          w3 = w2\<lparr>posted := posted w2 @ [req]\<rparr>;
          handler = (\<lambda>e wh. case e of
                       RequestException m \<Rightarrow>
                         (Inr PyNone, self,
                          print [PStr ''An error occurred while executing the query:'', PExn e] wh)
                     | _ \<Rightarrow> (Inl e, self, wh))
      in case post w2 req of
           Raised e \<Rightarrow> handler e w3
         | Responded resp \<Rightarrow>
             (let w4 = print [PStr ''\<newline>Response status code (Query):'',
                              PInt (status_code resp)] w3
              in if status_code resp = 200 then
                   (case json resp of
                      Inr v \<Rightarrow> (Inr v, self, w4)
                    | Inl e \<Rightarrow> handler e w4)
                 else
                   (Inr PyNone, self,
                    print [PStr ''Failed to execute query:'', PStr (text_body resp)] w4)))"

definition execute_mutation ::
  "transport \<Rightarrow> client \<Rightarrow> string \<Rightarrow> hval \<Rightarrow> world \<Rightarrow> (exn + pyval) \<times> client \<times> world" where
  "execute_mutation post self mutation variables w =
     (let (payload, w1) = new_dict [(''query'', VStr mutation)] w;
          w2 = (if truthy (heap w1) variables
                then setitem payload ''variables'' variables w1 else w1);
          req = \<lparr>req_url = url self, req_json = VRef payload, req_headers = headers self\<rparr>;
          w3 = w2\<lparr>posted := posted w2 @ [req]\<rparr>;
          handler = (\<lambda>e wh. case e of
                       RequestException m \<Rightarrow>
                         (Inr PyNone, self,
                          print [PStr ''An error occurred while executing the mutation:'', PExn e] wh)
                     | _ \<Rightarrow> (Inl e, self, wh))
      in case post w2 req of
           Raised e \<Rightarrow> handler e w3
         | Responded resp \<Rightarrow>
             (let w4 = print [PStr ''\<newline>Response status code (Mutation):'',
                              PInt (status_code resp)] w3
              in if status_code resp = 200 then
                   (case json resp of
                      Inr v \<Rightarrow> (Inr v, self, w4)
                    | Inl e \<Rightarrow> handler e w4)
                 else
                   (Inr PyNone, self,
                    print [PStr ''Failed to execute mutation:'', PStr (text_body resp)] w4)))"

section \<open>A lifetime of the client\<close>

text \<open>
  A caller that makes any sequence of calls on one client, whatever each call returns
  or raises.
\<close>

datatype call = Query string hval | Mutation string hval

fun perform :: "transport \<Rightarrow> client \<Rightarrow> call \<Rightarrow> world \<Rightarrow> (exn + pyval) \<times> client \<times> world" where
  "perform post self (Query q v) w = execute_query post self q v w"
| "perform post self (Mutation m v) w = execute_mutation post self m v w"

fun run_calls :: "transport \<Rightarrow> client \<Rightarrow> call list \<Rightarrow> world \<Rightarrow> client \<times> world" where
  "run_calls post self [] w = (self, w)"
| "run_calls post self (c # cs) w =
     (case perform post self c w of (r, self', w') \<Rightarrow> run_calls post self' cs w')"

section \<open>Observations used in the statements\<close>

text \<open>The calls of \<^verbatim>\<open>print\<close> and of \<^verbatim>\<open>requests.post\<close> made between two worlds.\<close>

definition printed_by :: "world \<Rightarrow> world \<Rightarrow> pitem list list" where
  "printed_by w w' = drop (length (stdout w)) (stdout w')"

definition posted_by :: "world \<Rightarrow> world \<Rightarrow> request list" where
  "posted_by w w' = drop (length (posted w)) (posted w')"

text \<open>
  The world in which a method calls \<^verbatim>\<open>requests.post\<close> (the payload is built), the
  request it passes, and the world when the call is over.
\<close>

definition world_at_post :: "string \<Rightarrow> hval \<Rightarrow> world \<Rightarrow> world" where
  "world_at_post document variables w =
     w\<lparr>heap := heap w @
        [ODict ((''query'', VStr document) #
           (if truthy (heap w @ [ODict [(''query'', VStr document)]]) variables
            then [(''variables'', variables)] else []))]\<rparr>"

definition request_of :: "client \<Rightarrow> world \<Rightarrow> request" where
  "request_of self w =
     \<lparr>req_url = url self, req_json = VRef (length (heap w)), req_headers = headers self\<rparr>"

definition world_after_post :: "client \<Rightarrow> string \<Rightarrow> hval \<Rightarrow> world \<Rightarrow> world" where
  "world_after_post self document variables w =
     (world_at_post document variables w)\<lparr>posted := posted w @ [request_of self w]\<rparr>"

text \<open>The dict that a request carries as its JSON body, read from the store.\<close>

definition body_of :: "world \<Rightarrow> request \<Rightarrow> (string \<times> hval) list option" where
  "body_of w r =
     (case req_json r of
        VRef p \<Rightarrow> (case lookup (heap w) p of Some (ODict kvs) \<Rightarrow> Some kvs | _ \<Rightarrow> None)
      | _ \<Rightarrow> None)"






text \<open>The label of a line of execute-mutation for the label of a line of execute-query.\<close>

definition mutation_label :: "string \<Rightarrow> string" where
  "mutation_label l =
     (if l = ''\<newline>Response status code (Query):'' then ''\<newline>Response status code (Mutation):''
      else if l = ''Failed to execute query:'' then ''Failed to execute mutation:''
      else if l = ''An error occurred while executing the query:''
           then ''An error occurred while executing the mutation:''
      else l)"

fun relabel :: "pitem list \<Rightarrow> pitem list" where
  "relabel (PStr l # args) = PStr (mutation_label l) # args"
| "relabel args = args"

text \<open>
  The loader as the specification words it: the test for the delimiter is made on the
  trimmed line.
\<close>

definition spec_credential :: "string list \<Rightarrow> string" where
  "spec_credential lines =
     concat (map strip (filter (\<lambda>line. strip line \<noteq> [] \<and> \<not> startswith (strip line) ''-----'') lines))"

text \<open>The transport that answers every request with the same outcome.\<close>

definition always :: "transport_outcome \<Rightarrow> transport" where
  "always out w r = out"

text \<open>A world and a client for the concrete instances.\<close>

definition world0 :: world where
  "world0 = \<lparr>files = (\<lambda>p. if p = ''key.pem''
                           then Lines [''-----BEGIN KEY-----\<newline>'', '' abc \<newline>'', ''def\<newline>'',
                                       ''-----END KEY-----\<newline>'']
                           else if p = ''empty.pem''
                           then Lines [''-----BEGIN KEY-----\<newline>'', ''-----END KEY-----\<newline>'']
                           else if p = ''indented.pem''
                           then Lines ['' -----BEGIN KEY-----\<newline>'', ''abc\<newline>'',
                                       ''-----END KEY-----\<newline>'']
                           else if p = ''locked.pem'' then ReadFailed ''Permission denied''
                           else FileNotFound),
             heap = [ODict [(''id'', VStr ''1'')], ODict []],
             stdout = [],
             posted = []\<rparr>"

definition client0 :: client where
  "client0 = \<lparr>url = ''https://example.org/graphql'', api_key = ''abcdef'',
              headers = [(''Content-Type'', ''application/json''),
                         (''Accept'', ''application/json''),
                         (''Authorization'', ''Bearer abcdef'')]\<rparr>"

section \<open>Properties of the credential loader\<close>

lemmas loader_defs = key_lines_def strip_def lstrip_def rstrip_def startswith_def isspace_def

lemma key_lines_filter:
  "key_lines ls = map strip (filter (\<lambda>l. strip l \<noteq> [] \<and> \<not> startswith l ''-----'') ls)"
  unfolding key_lines_def by (induction ls) simp_all

subsection \<open>Trimming\<close>

text \<open>
  \<open>strip\<close> removes a run of whitespace at each end and nothing else: what is left
  neither begins nor ends with whitespace.
\<close>

lemma rstrip_decompose: "t = rstrip t @ rev (takeWhile isspace (rev t))"
  by (metis rev_append rev_rev_ident takeWhile_dropWhile_id rstrip_def)

lemma strip_decompose:
  "\<exists>pre suf. s = pre @ strip s @ suf \<and> (\<forall>c \<in> set pre. isspace c) \<and> (\<forall>c \<in> set suf. isspace c)"
proof -
  let ?pre = "takeWhile isspace s"
  let ?suf = "rev (takeWhile isspace (rev (lstrip s)))"
  have "s = ?pre @ lstrip s"
    by (simp add: lstrip_def)
  also have "lstrip s = strip s @ ?suf"
    unfolding strip_def by (rule rstrip_decompose)
  finally have "s = ?pre @ strip s @ ?suf" .
  moreover have "\<forall>c \<in> set ?pre. isspace c"
    by (auto dest: set_takeWhileD)
  moreover have "\<forall>c \<in> set ?suf. isspace c"
    by (auto dest: set_takeWhileD)
  ultimately show ?thesis
    by blast
qed

lemma strip_last: "strip s \<noteq> [] \<Longrightarrow> \<not> isspace (last (strip s))"
  unfolding strip_def rstrip_def
  by (simp add: last_rev hd_dropWhile)

lemma strip_hd: "strip s \<noteq> [] \<Longrightarrow> \<not> isspace (hd (strip s))"
proof -
  assume ne: "strip s \<noteq> []"
  have "lstrip s = strip s @ rev (takeWhile isspace (rev (lstrip s)))"
    unfolding strip_def by (rule rstrip_decompose)
  with ne have "hd (lstrip s) = hd (strip s)" and "lstrip s \<noteq> []"
    by (metis hd_append2, metis append_is_Nil_conv)
  then show ?thesis
    by (metis lstrip_def hd_dropWhile)
qed

lemma lstrip_empty_iff: "lstrip s = [] \<longleftrightarrow> (\<forall>c \<in> set s. isspace c)"
  by (simp add: lstrip_def)

lemma rstrip_empty_iff: "rstrip s = [] \<longleftrightarrow> (\<forall>c \<in> set s. isspace c)"
  by (simp add: rstrip_def)

lemma strip_empty_iff: "strip s = [] \<longleftrightarrow> (\<forall>c \<in> set s. isspace c)"
proof
  assume "strip s = []"
  then have "\<forall>c \<in> set (lstrip s). isspace c"
    by (simp add: strip_def rstrip_empty_iff)
  then have "lstrip s = []"
    unfolding lstrip_def by (metis hd_dropWhile hd_in_set)
  then show "\<forall>c \<in> set s. isspace c"
    by (simp add: lstrip_empty_iff)
next
  assume "\<forall>c \<in> set s. isspace c"
  then have "lstrip s = []"
    by (simp add: lstrip_empty_iff)
  then show "strip s = []"
    by (simp add: strip_def rstrip_def)
qed

lemma strip_idem: "strip (strip s) = strip s"
proof (cases "strip s = []")
  case True
  have "strip [] = []"
    by (simp add: strip_def lstrip_def rstrip_def)
  with True show ?thesis by simp
next
  case False
  have l: "lstrip (strip s) = strip s"
    using strip_hd [OF False] False by (cases "strip s") (simp_all add: lstrip_def)
  have "rstrip (strip s) = strip s"
    using strip_last [OF False] False
    by (cases "rev (strip s)") (simp_all add: rstrip_def last_rev [symmetric] hd_rev)
  with l show ?thesis by (simp add: strip_def [of "strip s"])
qed

lemma startswith_append: "startswith (p @ rest) p"
  by (simp add: startswith_def)

lemma startswithE: "startswith s p \<Longrightarrow> \<exists>rest. s = p @ rest"
  unfolding startswith_def by (metis append_take_drop_id)

lemma rstrip_keeps_prefix:
  assumes "p \<noteq> []" and "\<not> isspace (last p)"
  shows "\<exists>rest'. rstrip (p @ rest) = p @ rest'"
proof (cases "\<forall>c \<in> set rest. isspace c")
  case True
  have "dropWhile isspace (rev p) = rev p"
    using assms by (cases "rev p") (simp_all add: last_rev [symmetric] hd_rev)
  with True have "rstrip (p @ rest) = p"
    by (simp add: rstrip_def dropWhile_append)
  then show ?thesis by simp
next
  case False
  then have "rstrip (p @ rest) = p @ rstrip rest"
    by (auto simp add: rstrip_def dropWhile_append)
  then show ?thesis by blast
qed

lemma startswith_strip:
  assumes "startswith l ''-----''"
  shows "startswith (strip l) ''-----''"
proof -
  from assms obtain rest where l: "l = ''-----'' @ rest"
    by (auto dest: startswithE)
  have "lstrip l = l"
    by (simp add: l lstrip_def isspace_def)
  moreover obtain rest' where "rstrip (''-----'' @ rest) = ''-----'' @ rest'"
    using rstrip_keeps_prefix [of "''-----''" rest] by (auto simp add: isspace_def)
  ultimately have "strip l = ''-----'' @ rest'"
    by (simp add: strip_def l)
  then show ?thesis
    by (simp only: startswith_append)
qed

text \<open>
  The loader and the specification's wording give the same credential for a file in
  which no delimiter line is indented.
\<close>

lemma spec_credential_agrees:
  assumes "\<forall>l \<in> set ls. startswith (strip l) ''-----'' \<longrightarrow> startswith l ''-----''"
  shows "concat (key_lines ls) = spec_credential ls"
proof -
  have "filter (\<lambda>l. strip l \<noteq> [] \<and> \<not> startswith l ''-----'') ls =
        filter (\<lambda>l. strip l \<noteq> [] \<and> \<not> startswith (strip l) ''-----'') ls"
    using assms by (intro filter_cong refl) (auto dest: startswith_strip)
  then show ?thesis
    by (simp add: key_lines_filter spec_credential_def)
qed

subsection \<open>The credential\<close>

text \<open>
  C8: for the file whose lines are \<^verbatim>\<open>-----BEGIN KEY-----\<close>, \<^verbatim>\<open> abc \<close>, \<^verbatim>\<open>def\<close>,
  \<^verbatim>\<open>-----END KEY-----\<close>, the loader returns the credential \<^verbatim>\<open>abcdef\<close>. The lines are
  taken as \<^verbatim>\<open>readlines\<close> gives them, each with its newline, and also without.
\<close>

theorem read_example_abcdef:
  "fst (read p (w\<lparr>files := (files w)(p := Lines [''-----BEGIN KEY-----\<newline>'', '' abc \<newline>'',
                                                  ''def\<newline>'', ''-----END KEY-----\<newline>''])\<rparr>))
     = Some ''abcdef'' \<and>
   fst (read p (w\<lparr>files := (files w)(p := Lines [''-----BEGIN KEY-----'', '' abc '', ''def'',
                                                  ''-----END KEY-----''])\<rparr>))
     = Some ''abcdef''"
  by (simp add: read_def loader_defs)

text \<open>
  C2, as the specification words it, fails: the loader tests the line as read, not the
  trimmed line, for the delimiter. The file \<^verbatim>\<open>indented.pem\<close> has a delimiter line
  that begins with a space; the loader keeps it, the specification's loader drops it.
\<close>

theorem read_keeps_indented_delimiter:
  "files world0 ''indented.pem'' =
     Lines ['' -----BEGIN KEY-----\<newline>'', ''abc\<newline>'', ''-----END KEY-----\<newline>''] \<and>
   fst (read ''indented.pem'' world0) = Some ''-----BEGIN KEY-----abc'' \<and>
   spec_credential ['' -----BEGIN KEY-----\<newline>'', ''abc\<newline>'', ''-----END KEY-----\<newline>'']
     = ''abc''"
  by (simp add: read_def world0_def spec_credential_def loader_defs)

text \<open>
  C2, amended: for every list of lines that the file holds, the loader discards the
  lines that are empty after trimming and the lines that begin, untrimmed, with
  \<^verbatim>\<open>-----\<close>, trims each remaining line and concatenates the trimmed lines in file
  order with no separator; it prints nothing.
\<close>

theorem read_concatenates_key_lines:
  "files w p = Lines ls \<Longrightarrow>
   read p w =
     (Some (concat (map strip
        (filter (\<lambda>l. strip l \<noteq> [] \<and> \<not> startswith l ''-----'') ls))), w)"
  by (simp add: read_def key_lines_filter)

theorem read_concatenates_key_lines_witness:
  "files world0 ''key.pem'' =
     Lines [''-----BEGIN KEY-----\<newline>'', '' abc \<newline>'', ''def\<newline>'', ''-----END KEY-----\<newline>''] \<and>
   read ''key.pem'' world0 = (Some ''abcdef'', world0)"
proof -
  have f: "files world0 ''key.pem'' =
     Lines [''-----BEGIN KEY-----\<newline>'', '' abc \<newline>'', ''def\<newline>'', ''-----END KEY-----\<newline>'']"
    by (simp add: world0_def)
  show ?thesis
    using f read_concatenates_key_lines [OF f]
    by (simp add: strip_def lstrip_def rstrip_def startswith_def isspace_def)
qed

section \<open>Properties of the two request methods\<close>

subsection \<open>The payload and the request\<close>

text \<open>
  The first three statements of a method build the payload in a fresh cell; the rest of
  the method is then a case distinction on what \<^verbatim>\<open>requests.post\<close> does.
\<close>

lemma setitem_fresh:
  "setitem (length (heap w)) k v (w\<lparr>heap := heap w @ [ODict kvs]\<rparr>) =
     w\<lparr>heap := heap w @ [ODict (AList.update k v kvs)]\<rparr>"
  by (simp add: setitem_def lookup_def)

lemma prepare_world:
  "(case new_dict [(''query'', VStr q)] w of (payload, w1) \<Rightarrow>
      F payload (if truthy (heap w1) v then setitem payload ''variables'' v w1 else w1)) =
   F (length (heap w)) (world_at_post q v w)"
  by (simp add: new_dict_def setitem_fresh world_at_post_def)

lemma posted_world_at_post [simp]: "posted (world_at_post q v w) = posted w"
  by (simp add: world_at_post_def)

lemma execute_query_unfold:
  "execute_query post self q v w =
     (case post (world_at_post q v w) (request_of self w) of
        Raised e \<Rightarrow>
          (case e of
             RequestException m \<Rightarrow>
               (Inr PyNone, self,
                print [PStr ''An error occurred while executing the query:'', PExn e]
                  (world_after_post self q v w))
           | _ \<Rightarrow> (Inl e, self, world_after_post self q v w))
      | Responded resp \<Rightarrow>
          (if status_code resp = 200 then
             (case json resp of
                Inr x \<Rightarrow>
                  (Inr x, self,
                   print [PStr ''\<newline>Response status code (Query):'', PInt (status_code resp)]
                     (world_after_post self q v w))
              | Inl e \<Rightarrow>
                  (case e of
                     RequestException m \<Rightarrow>
                       (Inr PyNone, self,
                        print [PStr ''An error occurred while executing the query:'', PExn e]
                          (print [PStr ''\<newline>Response status code (Query):'',
                                  PInt (status_code resp)] (world_after_post self q v w)))
                   | _ \<Rightarrow>
                       (Inl e, self,
                        print [PStr ''\<newline>Response status code (Query):'',
                               PInt (status_code resp)] (world_after_post self q v w))))
           else
             (Inr PyNone, self,
              print [PStr ''Failed to execute query:'', PStr (text_body resp)]
                (print [PStr ''\<newline>Response status code (Query):'', PInt (status_code resp)]
                   (world_after_post self q v w)))))"
  unfolding execute_query_def Let_def
  apply (rule trans [OF prepare_world])
  apply (simp add: request_of_def world_after_post_def
           split: transport_outcome.splits sum.splits exn.splits)
  done

lemma execute_mutation_unfold:
  "execute_mutation post self q v w =
     (case post (world_at_post q v w) (request_of self w) of
        Raised e \<Rightarrow>
          (case e of
             RequestException m \<Rightarrow>
               (Inr PyNone, self,
                print [PStr ''An error occurred while executing the mutation:'', PExn e]
                  (world_after_post self q v w))
           | _ \<Rightarrow> (Inl e, self, world_after_post self q v w))
      | Responded resp \<Rightarrow>
          (if status_code resp = 200 then
             (case json resp of
                Inr x \<Rightarrow>
                  (Inr x, self,
                   print [PStr ''\<newline>Response status code (Mutation):'', PInt (status_code resp)]
                     (world_after_post self q v w))
              | Inl e \<Rightarrow>
                  (case e of
                     RequestException m \<Rightarrow>
                       (Inr PyNone, self,
                        print [PStr ''An error occurred while executing the mutation:'', PExn e]
                          (print [PStr ''\<newline>Response status code (Mutation):'',
                                  PInt (status_code resp)] (world_after_post self q v w)))
                   | _ \<Rightarrow>
                       (Inl e, self,
                        print [PStr ''\<newline>Response status code (Mutation):'',
                               PInt (status_code resp)] (world_after_post self q v w))))
           else
             (Inr PyNone, self,
              print [PStr ''Failed to execute mutation:'', PStr (text_body resp)]
                (print [PStr ''\<newline>Response status code (Mutation):'', PInt (status_code resp)]
                   (world_after_post self q v w)))))"
  unfolding execute_mutation_def Let_def
  apply (rule trans [OF prepare_world])
  apply (simp add: request_of_def world_after_post_def
           split: transport_outcome.splits sum.splits exn.splits)
  done

lemma print_fields [simp]:
  "heap (print args w) = heap w" "posted (print args w) = posted w"
  "files (print args w) = files w" "stdout (print args w) = stdout w @ [args]"
  by (simp_all add: print_def)

lemma world_after_post_fields [simp]:
  "posted (world_after_post self q v w) = posted w @ [request_of self w]"
  "files (world_after_post self q v w) = files w"
  "stdout (world_after_post self q v w) = stdout w"
  "heap (world_after_post self q v w) = heap (world_at_post q v w)"
  by (simp_all add: world_after_post_def world_at_post_def)

lemmas outcome_splits = transport_outcome.splits sum.splits exn.splits

lemma execute_query_self: "fst (snd (execute_query post self q v w)) = self"
  by (simp add: execute_query_unfold split: outcome_splits)

lemma execute_mutation_self: "fst (snd (execute_mutation post self q v w)) = self"
  by (simp add: execute_mutation_unfold split: outcome_splits)

lemma execute_query_posted:
  "posted (snd (snd (execute_query post self q v w))) = posted w @ [request_of self w]"
  by (simp add: execute_query_unfold split: outcome_splits)

lemma execute_mutation_posted:
  "posted (snd (snd (execute_mutation post self q v w))) = posted w @ [request_of self w]"
  by (simp add: execute_mutation_unfold split: outcome_splits)

lemma execute_query_heap:
  "heap (snd (snd (execute_query post self q v w))) = heap (world_at_post q v w)"
  by (simp add: execute_query_unfold split: outcome_splits)

lemma execute_mutation_heap:
  "heap (snd (snd (execute_mutation post self q v w))) = heap (world_at_post q v w)"
  by (simp add: execute_mutation_unfold split: outcome_splits)

lemma execute_query_files:
  "files (snd (snd (execute_query post self q v w))) = files w"
  by (simp add: execute_query_unfold split: outcome_splits)

lemma execute_mutation_files:
  "files (snd (snd (execute_mutation post self q v w))) = files w"
  by (simp add: execute_mutation_unfold split: outcome_splits)

text \<open>
  A method reads its transport once, at the world and the request above: a statement
  about the transports that give one outcome everywhere covers every transport.
\<close>

lemma transport_factor_query:
  "execute_query post self q v w =
     execute_query (\<lambda>_ _. post (world_at_post q v w) (request_of self w)) self q v w"
  by (simp add: execute_query_unfold)

lemma transport_factor_mutation:
  "execute_mutation post self q v w =
     execute_mutation (\<lambda>_ _. post (world_at_post q v w) (request_of self w)) self q v w"
  by (simp add: execute_mutation_unfold)

text \<open>Allocating the payload does not change the truth value of an object of the caller.\<close>

lemma truthy_alloc:
  "(case v of VRef a \<Rightarrow> a < length h | _ \<Rightarrow> True) \<Longrightarrow> truthy (h @ [x]) v = truthy h v"
  by (cases v) (simp_all add: lookup_def nth_append)

text \<open>
  C10: a call of execute-query or of execute-mutation leaves every cell that the store
  held before the call as it was, whatever the call returns or raises; so the mapping
  passed as \<open>variables\<close>, and all that it refers to, is equal to its value before the
  call. The only cell written is the payload, which the call allocates.
\<close>

theorem execute_keeps_store_cells:
  "take (length (heap w)) (heap (snd (snd (execute_query post self q v w)))) = heap w \<and>
   take (length (heap w)) (heap (snd (snd (execute_mutation post self q v w)))) = heap w"
  by (simp add: execute_query_heap execute_mutation_heap world_at_post_def)

text \<open>
  C7: execute-mutation behaves as execute-query: on every transport, client, document,
  variables and world the two return the same result (or raise the same exception),
  leave the same client, the same store (so the same request body), the same calls of
  \<^verbatim>\<open>requests.post\<close> and the same files, and print the same lines up to the label that
  starts each line.
\<close>

theorem execute_mutation_as_execute_query:
  "fst (execute_mutation post self d v w) = fst (execute_query post self d v w) \<and>
   fst (snd (execute_mutation post self d v w)) = fst (snd (execute_query post self d v w)) \<and>
   heap (snd (snd (execute_mutation post self d v w))) = heap (snd (snd (execute_query post self d v w))) \<and>
   posted (snd (snd (execute_mutation post self d v w))) = posted (snd (snd (execute_query post self d v w))) \<and>
   files (snd (snd (execute_mutation post self d v w))) = files (snd (snd (execute_query post self d v w))) \<and>
   printed_by w (snd (snd (execute_mutation post self d v w))) =
     map relabel (printed_by w (snd (snd (execute_query post self d v w))))"
proof -
  have labels: "mutation_label ''\<newline>Response status code (Query):'' = ''\<newline>Response status code (Mutation):''"
    "mutation_label ''Failed to execute query:'' = ''Failed to execute mutation:''"
    "mutation_label ''An error occurred while executing the query:'' = ''An error occurred while executing the mutation:''"
    by (simp_all add: mutation_label_def)
  have res: "fst (execute_mutation post self d v w) = fst (execute_query post self d v w)"
    by (simp add: execute_query_unfold execute_mutation_unfold split: outcome_splits)
  have pr: "printed_by w (snd (snd (execute_mutation post self d v w))) =
     map relabel (printed_by w (snd (snd (execute_query post self d v w))))"
    by (simp add: execute_query_unfold execute_mutation_unfold printed_by_def labels split: outcome_splits)
  show ?thesis
    using res pr
    by (simp add: execute_query_self execute_mutation_self execute_query_heap execute_mutation_heap
        execute_query_posted execute_mutation_posted execute_query_files execute_mutation_files)
qed


subsection \<open>Exceptions and results\<close>










subsection \<open>The request body\<close>

lemma lookup_Some_less: "lookup h a = Some obj \<Longrightarrow> a < length h"
  by (simp add: lookup_def split: if_splits)

lemma body_of_sent:
  "heap w' = heap (world_at_post q v w) \<Longrightarrow>
   body_of w' (request_of self w) =
     Some ((''query'', VStr q) #
           (if truthy (heap w @ [ODict [(''query'', VStr q)]]) v then [(''variables'', v)] else []))"
  by (simp add: body_of_def request_of_def world_at_post_def lookup_def)

lemma body_of_query:
  "body_of (snd (snd (execute_query post self q v w)))
           (last (posted (snd (snd (execute_query post self q v w))))) =
     Some ((''query'', VStr q) #
           (if truthy (heap w @ [ODict [(''query'', VStr q)]]) v then [(''variables'', v)] else []))"
  by (simp add: execute_query_posted body_of_sent [OF execute_query_heap])

lemma body_of_mutation:
  "body_of (snd (snd (execute_mutation post self q v w)))
           (last (posted (snd (snd (execute_mutation post self q v w))))) =
     Some ((''query'', VStr q) #
           (if truthy (heap w @ [ODict [(''query'', VStr q)]]) v then [(''variables'', v)] else []))"
  by (simp add: execute_mutation_posted body_of_sent [OF execute_mutation_heap])

text \<open>
  C4: the body of the request that either method posts is the dict with the key
  \<^verbatim>\<open>query\<close> mapped to the document; it has no other key when \<open>variables\<close> is
  \<^verbatim>\<open>None\<close> or an empty mapping, and it has the key \<^verbatim>\<open>variables\<close>, mapped to the given
  mapping (the very object, which is as it was), when that mapping is not empty.
\<close>

theorem request_body_query_variables:
  "(v = VNone \<longrightarrow>
      body_of (snd (snd (execute_query post self q v w)))
              (last (posted (snd (snd (execute_query post self q v w)))))
        = Some [(''query'', VStr q)] \<and>
      body_of (snd (snd (execute_mutation post self q v w)))
              (last (posted (snd (snd (execute_mutation post self q v w)))))
        = Some [(''query'', VStr q)]) \<and>
   (v = VRef a \<and> lookup (heap w) a = Some (ODict []) \<longrightarrow>
      body_of (snd (snd (execute_query post self q v w)))
              (last (posted (snd (snd (execute_query post self q v w)))))
        = Some [(''query'', VStr q)] \<and>
      body_of (snd (snd (execute_mutation post self q v w)))
              (last (posted (snd (snd (execute_mutation post self q v w)))))
        = Some [(''query'', VStr q)]) \<and>
   (v = VRef a \<and> lookup (heap w) a = Some (ODict (kv # kvs)) \<longrightarrow>
      body_of (snd (snd (execute_query post self q v w)))
              (last (posted (snd (snd (execute_query post self q v w)))))
        = Some [(''query'', VStr q), (''variables'', VRef a)] \<and>
      body_of (snd (snd (execute_mutation post self q v w)))
              (last (posted (snd (snd (execute_mutation post self q v w)))))
        = Some [(''query'', VStr q), (''variables'', VRef a)] \<and>
      lookup (heap (snd (snd (execute_query post self q v w)))) a = Some (ODict (kv # kvs)) \<and>
      lookup (heap (snd (snd (execute_mutation post self q v w)))) a = Some (ODict (kv # kvs)))"
proof -
  have la: "lookup (heap w) a = Some obj \<Longrightarrow> lookup (heap w @ [x]) a = Some obj" for obj x
    by (simp add: lookup_def nth_append split: if_splits)
  have lw: "lookup (heap w) a = Some obj \<Longrightarrow> lookup (heap (world_at_post q v' w)) a = Some obj"
    for obj v'
    by (simp add: world_at_post_def la)
  show ?thesis
    by (simp add: body_of_query body_of_mutation la lw execute_query_heap execute_mutation_heap)
qed

theorem request_body_query_variables_witness:
  "lookup (heap world0) 1 = Some (ODict []) \<and>
   lookup (heap world0) 0 = Some (ODict [(''id'', VStr ''1'')]) \<and>
   body_of (snd (snd (execute_query (always (Raised (RequestException ''''))) client0 ''{ me }'' VNone world0)))
      (last (posted (snd (snd (execute_query (always (Raised (RequestException ''''))) client0 ''{ me }'' VNone world0)))))
     = Some [(''query'', VStr ''{ me }'')] \<and>
   body_of (snd (snd (execute_query (always (Raised (RequestException ''''))) client0 ''{ me }'' (VRef 1) world0)))
      (last (posted (snd (snd (execute_query (always (Raised (RequestException ''''))) client0 ''{ me }'' (VRef 1) world0)))))
     = Some [(''query'', VStr ''{ me }'')] \<and>
   body_of (snd (snd (execute_mutation (always (Raised (RequestException ''''))) client0 ''{ me }'' (VRef 0) world0)))
      (last (posted (snd (snd (execute_mutation (always (Raised (RequestException ''''))) client0 ''{ me }'' (VRef 0) world0)))))
     = Some [(''query'', VStr ''{ me }''), (''variables'', VRef 0)]"
proof -
  let ?post = "always (Raised (RequestException ''''))"
  have a: "lookup (heap world0) 1 = Some (ODict [])"
    and b: "lookup (heap world0) 0 = Some (ODict [(''id'', VStr ''1'')])"
    by (simp_all add: world0_def lookup_def)
  show ?thesis
    using a b
      request_body_query_variables [where v = VNone and post = ?post and self = client0
        and q = "''{ me }''" and w = world0]
      request_body_query_variables [where v = "VRef 1" and a = 1 and post = ?post
        and self = client0 and q = "''{ me }''" and w = world0]
      request_body_query_variables [where v = "VRef 0" and a = 0 and kv = "(''id'', VStr ''1'')"
        and kvs = "[]" and post = ?post and self = client0 and q = "''{ me }''" and w = world0]
    by simp
qed

section \<open>Properties of the construction\<close>




section \<open>Properties of a lifetime\<close>

lemma perform_self: "fst (snd (perform post c call w)) = c"
  by (cases call) (simp_all add: execute_query_self execute_mutation_self)

lemma perform_posted: "posted (snd (snd (perform post c call w))) = posted w @ [request_of c w]"
  by (cases call) (simp_all add: execute_query_posted execute_mutation_posted)

lemma run_calls_invariant:
  "fst (run_calls post c calls w) = c \<and>
   (\<exists>reqs. posted (snd (run_calls post c calls w)) = posted w @ reqs \<and>
           length reqs = length calls \<and>
           (\<forall>r \<in> set reqs. req_headers r = headers c \<and> req_url r = url c))"
proof (induction calls arbitrary: w)
  case Nil
  show ?case by simp
next
  case (Cons call calls)
  obtain r c' w' where p: "perform post c call w = (r, c', w')"
    by (cases "perform post c call w") auto
  from p have c': "c' = c"
    using perform_self [of post c call w] by simp
  from p have w': "posted w' = posted w @ [request_of c w]"
    using perform_posted [of post c call w] by simp
  from Cons.IH [of w'] obtain reqs where
    reqs: "posted (snd (run_calls post c calls w')) = posted w' @ reqs"
      "length reqs = length calls"
      "\<forall>r \<in> set reqs. req_headers r = headers c \<and> req_url r = url c"
    and self: "fst (run_calls post c calls w') = c"
    by blast
  have run: "run_calls post c (call # calls) w = run_calls post c calls w'"
    using p c' by simp
  have "posted (snd (run_calls post c (call # calls) w)) = posted w @ (request_of c w # reqs)"
    using run reqs(1) w' by simp
  moreover have "length (request_of c w # reqs) = length (call # calls)"
    using reqs(2) by simp
  moreover have "\<forall>r \<in> set (request_of c w # reqs). req_headers r = headers c \<and> req_url r = url c"
    using reqs(3) by (simp add: request_of_def)
  ultimately show ?case
    using run self by metis
qed

lemma init_Inr:
  "fst (init u key w) = Inr c \<Longrightarrow>
   fst (read key w) = Some (api_key c) \<and> api_key c \<noteq> [] \<and> url c = u \<and>
   headers c = [(''Content-Type'', ''application/json''), (''Accept'', ''application/json''),
                (''Authorization'', ''Bearer '' @ api_key c)]"
  by (auto simp add: init_def split: prod.splits option.splits if_splits)

text \<open>
  C6: for a client that the constructor returned, the headers are the three fixed ones,
  with the token that the loader gave after \<^verbatim>\<open>Bearer\<close>; any sequence of calls of the
  two methods, on any transport and from any world, leaves the client as it was, posts
  one request for each call, and every one of these requests carries the client's url
  and exactly these three headers.
\<close>

theorem requests_carry_fixed_headers:
  assumes "fst (init u key w0) = Inr c"
  shows "fst (read key w0) = Some (api_key c) \<and>
         headers c = [(''Content-Type'', ''application/json''), (''Accept'', ''application/json''),
                      (''Authorization'', ''Bearer '' @ api_key c)] \<and>
         fst (run_calls post c calls w) = c \<and>
         length (posted_by w (snd (run_calls post c calls w))) = length calls \<and>
         (\<forall>r \<in> set (posted_by w (snd (run_calls post c calls w))).
            req_url r = u \<and>
            req_headers r = [(''Content-Type'', ''application/json''), (''Accept'', ''application/json''),
                             (''Authorization'', ''Bearer '' @ api_key c)])"
proof -
  note i = init_Inr [OF assms]
  from run_calls_invariant [of post c calls w] obtain reqs where
    reqs: "posted (snd (run_calls post c calls w)) = posted w @ reqs"
      "length reqs = length calls"
      "\<forall>r \<in> set reqs. req_headers r = headers c \<and> req_url r = url c"
    and self: "fst (run_calls post c calls w) = c"
    by blast
  have "posted_by w (snd (run_calls post c calls w)) = reqs"
    by (simp add: posted_by_def reqs(1))
  with reqs(2,3) self i show ?thesis
    by simp
qed

theorem requests_carry_fixed_headers_witness:
  "fst (init ''https://example.org/graphql'' ''key.pem'' world0) = Inr client0 \<and>
   fst (run_calls (always (Raised (RequestException ''Connection refused''))) client0
          [Query ''{ me }'' VNone, Mutation ''mutation { create_contact { id } }'' (VRef 0)] world0)
     = client0 \<and>
   map req_headers (posted_by world0 (snd (run_calls (always (Raised (RequestException ''Connection refused''))) client0
          [Query ''{ me }'' VNone, Mutation ''mutation { create_contact { id } }'' (VRef 0)] world0)))
     = [[(''Content-Type'', ''application/json''), (''Accept'', ''application/json''),
         (''Authorization'', ''Bearer abcdef'')],
        [(''Content-Type'', ''application/json''), (''Accept'', ''application/json''),
         (''Authorization'', ''Bearer abcdef'')]]"
proof -
  have i: "fst (init ''https://example.org/graphql'' ''key.pem'' world0) = Inr client0"
    by (simp add: init_def read_def world0_def client0_def loader_defs)
  let ?w = "snd (run_calls (always (Raised (RequestException ''Connection refused''))) client0
          [Query ''{ me }'' VNone, Mutation ''mutation { create_contact { id } }'' (VRef 0)] world0)"
  have n: "length (posted_by world0 ?w) = 2"
    and h: "\<forall>r \<in> set (posted_by world0 ?w). req_headers r =
         [(''Content-Type'', ''application/json''), (''Accept'', ''application/json''),
          (''Authorization'', ''Bearer '' @ api_key client0)]"
    and s: "fst (run_calls (always (Raised (RequestException ''Connection refused''))) client0
          [Query ''{ me }'' VNone, Mutation ''mutation { create_contact { id } }'' (VRef 0)] world0)
     = client0"
    using requests_carry_fixed_headers [OF i,
        where post = "always (Raised (RequestException ''Connection refused''))"
          and calls = "[Query ''{ me }'' VNone, Mutation ''mutation { create_contact { id } }'' (VRef 0)]"
          and w = world0]
    by simp_all
  from n obtain r1 r2 where rs: "posted_by world0 ?w = [r1, r2]"
    by (auto simp add: length_Suc_conv numeral_2_eq_2)
  with h have "map req_headers (posted_by world0 ?w) =
      [[(''Content-Type'', ''application/json''), (''Accept'', ''application/json''),
         (''Authorization'', ''Bearer '' @ api_key client0)],
        [(''Content-Type'', ''application/json''), (''Accept'', ''application/json''),
         (''Authorization'', ''Bearer '' @ api_key client0)]]"
    by simp
  with i s show ?thesis
    by (simp add: client0_def)
qed

end
